theory Spec2Isabelle
  imports Main "HOL-Library.Word"
begin

section \<open>JavaScript values\<close>

text \<open>
  The fields of a request body, a query string or a header are JavaScript values. The
  model covers \<open>undefined\<close> (the field is absent), \<open>null\<close>, booleans and strings;
  numbers, arrays and objects are left out. On these values \<open>===\<close> is equality.
\<close>

datatype jsval = JUndefined | JNull | JBool bool | JStr string

text \<open>The truthiness that \<open>if (x)\<close>, \<open>!x\<close> and \<open>x || y\<close> test.\<close>

fun truthy :: "jsval \<Rightarrow> bool" where
  "truthy JUndefined = False"
| "truthy JNull = False"
| "truthy (JBool b) = b"
| "truthy (JStr s) = (s \<noteq> [])"

section \<open>The session store of server.js\<close>

text \<open>
  \<open>let users = []\<close>: the accounts, in the order of their registration. An account is
  the object \<open>{ username, password, role, sessionToken }\<close> that \<open>/register\<close> pushes.
\<close>

record account =
  username :: jsval
  password :: jsval
  role :: jsval
  sessionToken :: jsval

type_synonym store = "account list"

text \<open>What a handler sends: \<open>res.status(n).json(...)\<close>, status 200 when none is set.\<close>

datatype resp_json =
    ErrorJson string
  | SessionJson jsval jsval jsval
  | ProfileJson jsval jsval
  | UpdateJson bool jsval jsval
  | UploadJson string

datatype response = Response (status: nat) (json: resp_json)

text \<open>
  \<open>Math.random().toString(36).substring(2)\<close>. The random number is not computed here: the
  argument is its rendering in base 36 (\<open>0.4fzyo82mvyr\<close>, or \<open>0\<close> for the number 0), and
  \<open>substring(2)\<close> drops the first two characters, giving the empty string when there are
  fewer.
\<close>

definition generateToken :: "string \<Rightarrow> string" where
  "generateToken rnd = drop 2 rnd"

text \<open>
  \<open>users.find(p)\<close> gives the first account that satisfies \<open>p\<close>, by reference. The model
  finds its index, so that an assignment to a field of the account found is an update of
  the store at that index.
\<close>

fun findIndex :: "('a \<Rightarrow> bool) \<Rightarrow> 'a list \<Rightarrow> nat option" where
  "findIndex P [] = None"
| "findIndex P (x # xs) = (if P x then Some 0 else map_option Suc (findIndex P xs))"

text \<open>\<open>app.post('/login')\<close>, with the body's \<open>username\<close> and \<open>password\<close>.\<close>

definition login :: "string \<Rightarrow> jsval \<Rightarrow> jsval \<Rightarrow> store \<Rightarrow> response \<times> store" where
  "login rnd uname pw users =
     (case findIndex (\<lambda>u. username u = uname \<and> password u = pw) users of
        None \<Rightarrow> (Response 401 (ErrorJson ''Invalid Login''), users)
      | Some i \<Rightarrow>
          (let token = generateToken rnd;
               user = (users ! i)\<lparr>sessionToken := JStr token\<rparr>
           in (Response 200 (SessionJson (JStr token) (username user) (role user)),
               users[i := user])))"

text \<open>\<open>app.post('/register')\<close>, with the body's \<open>username\<close>, \<open>password\<close> and \<open>role\<close>.\<close>

definition register :: "string \<Rightarrow> jsval \<Rightarrow> jsval \<Rightarrow> jsval \<Rightarrow> store \<Rightarrow> response \<times> store" where
  "register rnd uname pw rl users =
     (if \<not> truthy uname \<or> \<not> truthy pw \<or> \<not> truthy rl
      then (Response 400 (ErrorJson ''Missing username, password or role''), users)
      else if list_ex (\<lambda>u. username u = uname) users
      then (Response 400 (ErrorJson ''Username already exists''), users)
      else
        (let token = generateToken rnd;
             newUser = \<lparr>username = uname, password = pw, role = rl,
                        sessionToken = JStr token\<rparr>
         in (Response 200 (SessionJson (JStr token) uname rl), users @ [newUser])))"

text \<open>\<open>app.get('/profile')\<close>, with the \<open>Authorization\<close> header.\<close>

definition profile :: "jsval \<Rightarrow> store \<Rightarrow> response \<times> store" where
  "profile token users =
     (case findIndex (\<lambda>u. sessionToken u = token) users of
        None \<Rightarrow> (Response 401 (ErrorJson ''You are not logged in''), users)
      | Some i \<Rightarrow>
          (Response 200 (ProfileJson (username (users ! i)) (role (users ! i))), users))"

text \<open>
  \<open>app.post('/update-profile')\<close>, with the \<open>Authorization\<close> header and the body's
  \<open>username\<close> and \<open>role\<close>.
\<close>

definition update_profile :: "jsval \<Rightarrow> jsval \<Rightarrow> jsval \<Rightarrow> store \<Rightarrow> response \<times> store" where
  "update_profile token uname rl users =
     (case findIndex (\<lambda>u. sessionToken u = token) users of
        None \<Rightarrow> (Response 401 (ErrorJson ''You are not logged in''), users)
      | Some i \<Rightarrow>
          (let user0 = users ! i;
               user1 = (if truthy uname then user0\<lparr>username := uname\<rparr> else user0);
               user2 = (if truthy rl then user1\<lparr>role := rl\<rparr> else user1)
           in (Response 200 (UpdateJson True (username user2) (role user2)),
               users[i := user2])))"

subsection \<open>Sequences of requests\<close>

datatype request =
    Register string jsval jsval jsval
  | Login string jsval jsval
  | GetProfile jsval
  | UpdateProfile jsval jsval jsval

fun handle :: "request \<Rightarrow> store \<Rightarrow> response \<times> store" where
  "handle (Register rnd uname pw rl) users = register rnd uname pw rl users"
| "handle (Login rnd uname pw) users = login rnd uname pw users"
| "handle (GetProfile token) users = profile token users"
| "handle (UpdateProfile token uname rl) users = update_profile token uname rl users"

text \<open>The store after a sequence of requests, handled one after the other.\<close>

fun serve :: "request list \<Rightarrow> store \<Rightarrow> store" where
  "serve [] users = users"
| "serve (r # rs) users = serve rs (snd (handle r users))"

text \<open>
  The account that a request hands a token to, with the token: \<open>/register\<close> hands it to
  the account it appends, \<open>/login\<close> to the account it finds. Accounts are never removed
  and never reordered, so the index names the account.
\<close>

fun issued :: "request \<Rightarrow> store \<Rightarrow> (nat \<times> string) option" where
  "issued (Register rnd uname pw rl) users =
     (if status (fst (register rnd uname pw rl users)) = 200
      then Some (length users, generateToken rnd) else None)"
| "issued (Login rnd uname pw) users =
     map_option (\<lambda>i. (i, generateToken rnd))
       (findIndex (\<lambda>u. username u = uname \<and> password u = pw) users)"
| "issued (GetProfile token) users = None"
| "issued (UpdateProfile token uname rl) users = None"

text \<open>A later login for account \<open>i\<close>: some request of the sequence hands \<open>i\<close> a new token.\<close>

fun superseded :: "nat \<Rightarrow> request list \<Rightarrow> store \<Rightarrow> bool" where
  "superseded i [] users = False"
| "superseded i (r # rs) users =
     ((case issued r users of None \<Rightarrow> False | Some (j, t) \<Rightarrow> j = i)
      \<or> superseded i rs (snd (handle r users)))"

text \<open>
  The random number that comes with a request, in its base 36 rendering; the handler
  draws it only when it generates a token.
\<close>

fun random_of :: "request \<Rightarrow> string option" where
  "random_of (Register rnd uname pw rl) = Some rnd"
| "random_of (Login rnd uname pw) = Some rnd"
| "random_of (GetProfile token) = None"
| "random_of (UpdateProfile token uname rl) = None"

text \<open>The value is a string: neither absent nor \<open>null\<close>.\<close>

fun is_string :: "jsval \<Rightarrow> bool" where
  "is_string (JStr s) = True"
| "is_string v = False"

section \<open>The presigned upload URL of server.js\<close>

text \<open>The \<open>params\<close> object that \<open>/upload\<close> passes to the signer.\<close>

record sign_params =
  Bucket :: jsval
  Key :: jsval
  Expires :: nat
  ContentType :: string

text \<open>
  \<open>app.get('/upload')\<close>, with the query's \<open>fileName\<close>. The signer \<open>s3.getSignedUrl\<close> and
  the bucket \<open>process.env.S3_BUCKET\<close> are outside the program: the signer is a function of
  the operation and the parameters that calls back with an error (\<open>Inl\<close>, its message) or
  with a URL (\<open>Inr\<close>).
\<close>

definition upload ::
  "(string \<Rightarrow> sign_params \<Rightarrow> string + string) \<Rightarrow> jsval \<Rightarrow> jsval \<Rightarrow> response" where
  "upload getSignedUrl bucket fileName =
     (if \<not> truthy fileName then Response 400 (ErrorJson ''you are missing filename'')
      else
        (let params = \<lparr>Bucket = bucket, Key = fileName, Expires = 60,
                       ContentType = ''text/csv''\<rparr>
         in case getSignedUrl ''putObject'' params of
              Inl message \<Rightarrow> Response 500 (ErrorJson message)
            | Inr url \<Rightarrow> Response 200 (UploadJson url)))"

section \<open>The inline-content upload\<close>

text \<open>
  Modelled from the spec: the two errors of the inline-content upload, the validation
  error and the storage error with the status and the message of the storage.
\<close>

datatype upload_error = ValidationError | StorageError nat string

text \<open>
  Modelled from the spec: the handler of the inline-content upload, the endpoint behind
  \<open>API_URL\<close> that the form posts to, whose code is not among the sources. The spec has it
  fail with a validation error if \<open>subjectId\<close> or \<open>filename\<close> is empty or \<open>fileContent\<close>
  is absent or empty, otherwise write the content under the key \<open>filename\<close> and return
  the key, or fail with the status and the message of the storage when the write fails.
  The write is a function of the key and the content that gives the failure, if any.
\<close>

definition inline_upload ::
  "(string \<Rightarrow> string \<Rightarrow> (nat \<times> string) option) \<Rightarrow>
     string \<Rightarrow> string \<Rightarrow> string option \<Rightarrow> upload_error + string" where
  "inline_upload putObject sid fname content =
     (case content of
        None \<Rightarrow> Inl ValidationError
      | Some txt \<Rightarrow>
          if sid = [] \<or> fname = [] \<or> txt = [] then Inl ValidationError
          else (case putObject fname txt of
                  Some (code, message) \<Rightarrow> Inl (StorageError code message)
                | None \<Rightarrow> Inr fname))"

section \<open>The upload form of the client\<close>

text \<open>\<open>String(v)\<close>, as a template literal converts the value it embeds.\<close>

fun js_string :: "jsval \<Rightarrow> string" where
  "js_string JUndefined = ''undefined''"
| "js_string JNull = ''null''"
| "js_string (JBool b) = (if b then ''true'' else ''false'')"
| "js_string (JStr s) = s"






text \<open>
  What \<open>response.json()\<close> gives: it rejects, or resolves to \<open>null\<close>, or resolves to
  another value, of which only the property \<open>key\<close> is read (\<open>undefined\<close> when the value
  has none).
\<close>

datatype json_body = JsonRejects | JsonNull | JsonValue jsval

text \<open>The response that \<open>fetch\<close> resolves to: \<open>status\<close>, \<open>text()\<close> and \<open>json()\<close>.\<close>

record http_response =
  resp_status :: nat
  resp_text :: "jsval + string"
  resp_json :: json_body










section \<open>Properties of the store\<close>

lemma findIndex_None: "findIndex P xs = None \<longleftrightarrow> (\<forall>x \<in> set xs. \<not> P x)"
  by (induction xs) auto

lemma findIndex_Some:
  "findIndex P xs = Some i \<Longrightarrow> i < length xs \<and> P (xs ! i) \<and> (\<forall>j < i. \<not> P (xs ! j))"
proof (induction xs arbitrary: i)
  case Nil
  then show ?case by simp
next
  case (Cons x xs)
  show ?case
  proof (cases "P x")
    case True
    with Cons.prems show ?thesis by simp
  next
    case False
    with Cons.prems obtain k where k: "findIndex P xs = Some k" "i = Suc k"
      by auto
    from Cons.IH [OF k(1)] False k(2) show ?thesis
      by (auto simp: less_Suc_eq_0_disj)
  qed
qed

lemma findIndex_first:
  "i < length xs \<Longrightarrow> P (xs ! i) \<Longrightarrow> \<forall>j < i. \<not> P (xs ! j) \<Longrightarrow> findIndex P xs = Some i"
proof (induction xs arbitrary: i)
  case Nil
  then show ?case by simp
next
  case (Cons x xs)
  show ?case
  proof (cases i)
    case 0
    with Cons.prems show ?thesis by simp
  next
    case (Suc k)
    with Cons.prems have "\<not> P x" by auto
    moreover from Suc Cons.prems have "findIndex P xs = Some k"
      by (intro Cons.IH) auto
    ultimately show ?thesis using Suc by simp
  qed
qed

subsection \<open>Usernames\<close>

text \<open>
  \<open>/register\<close> refuses a username that an account already has, so it keeps the usernames
  of the store distinct; \<open>/login\<close> and \<open>/profile\<close> change no username.
\<close>

lemma register_keeps_distinct:
  "distinct (map username users) \<Longrightarrow>
   distinct (map username (snd (register rnd uname pw rl users)))"
  by (auto simp: register_def Let_def list_ex_iff)

lemma login_keeps_usernames:
  "map username (snd (login rnd uname pw users)) = map username users"
proof (cases "findIndex (\<lambda>u. username u = uname \<and> password u = pw) users")
  case None
  then show ?thesis by (simp add: login_def)
next
  case (Some i)
  from findIndex_Some [OF Some] have "i < length users" by simp
  then have "(map username users)[i := username (users ! i)] = map username users"
    by (simp add: list_update_same_conv)
  with Some show ?thesis by (simp add: login_def Let_def map_update)
qed

text \<open>
  C1. The claim: after every sequence of requests from the empty store, no two accounts
  share a username, also when \<open>/update-profile\<close> renames an account. The handler of
  \<open>/update-profile\<close> assigns the new username without the check that \<open>/register\<close> makes:
  once alice and bob are registered, bob renames himself alice, and the store holds two
  accounts of that name.
\<close>

theorem rename_shares_username:
  "serve [Register ''0.a1'' (JStr ''alice'') (JStr ''pw1'') (JStr ''analyst''),
          Register ''0.b2'' (JStr ''bob'') (JStr ''pw2'') (JStr ''analyst''),
          UpdateProfile (JStr ''b2'') (JStr ''alice'') JUndefined] []
     = [\<lparr>username = JStr ''alice'', password = JStr ''pw1'', role = JStr ''analyst'',
          sessionToken = JStr ''a1''\<rparr>,
        \<lparr>username = JStr ''alice'', password = JStr ''pw2'', role = JStr ''analyst'',
          sessionToken = JStr ''b2''\<rparr>]
   \<and> \<not> distinct (map username
         (serve [Register ''0.a1'' (JStr ''alice'') (JStr ''pw1'') (JStr ''analyst''),
                 Register ''0.b2'' (JStr ''bob'') (JStr ''pw2'') (JStr ''analyst''),
                 UpdateProfile (JStr ''b2'') (JStr ''alice'') JUndefined] []))"
  by (simp add: register_def update_profile_def generateToken_def Let_def)

subsection \<open>Registration\<close>

text \<open>
  C3, as the claim states it: for every username and any passwords and roles, the first
  registration succeeds and the second fails as a duplicate. It does not hold for an
  empty field: with an empty password the first registration is refused, and the second
  is refused for the missing field, not as a duplicate.
\<close>

theorem register_twice_counterexample:
  "fst (register ''0.a1'' (JStr ''alice'') (JStr '''') (JStr ''analyst'') [])
     = Response 400 (ErrorJson ''Missing username, password or role'')
   \<and> fst (register ''0.b2'' (JStr ''alice'') (JStr '''') (JStr ''coach'')
        (snd (register ''0.a1'' (JStr ''alice'') (JStr ''pw1'') (JStr ''analyst'') [])))
     = Response 400 (ErrorJson ''Missing username, password or role'')"
  by (simp add: register_def generateToken_def Let_def)

text \<open>
  C3, amended: if the username, the password and the role are not empty and no account
  of the store has the username, the registration succeeds and appends the account; a
  second registration of the username, with any password and role, is answered with
  status 400 and leaves the store as it is. Its error is the duplicate username when
  the password and the role are not empty, and the missing field otherwise.
\<close>

theorem register_twice:
  assumes "truthy u" and "truthy pa" and "truthy ra"
    and "\<not> list_ex (\<lambda>a. username a = u) users"
  shows "fst (register rnda u pa ra users)
           = Response 200 (SessionJson (JStr (generateToken rnda)) u ra)
     \<and> snd (register rnda u pa ra users)
           = users @ [\<lparr>username = u, password = pa, role = ra,
                        sessionToken = JStr (generateToken rnda)\<rparr>]
     \<and> register rndb u pb rb (snd (register rnda u pa ra users))
           = (Response 400 (ErrorJson (if truthy pb \<and> truthy rb
                                       then ''Username already exists''
                                       else ''Missing username, password or role'')),
              snd (register rnda u pa ra users))"
  using assms by (auto simp: register_def Let_def list_ex_iff)

theorem register_twice_witness:
  "truthy (JStr ''alice'') \<and> truthy (JStr ''pw1'') \<and> truthy (JStr ''analyst'')
   \<and> \<not> list_ex (\<lambda>a. username a = JStr ''alice'') []
   \<and> fst (register ''0.a1'' (JStr ''alice'') (JStr ''pw1'') (JStr ''analyst'') [])
       = Response 200 (SessionJson (JStr ''a1'') (JStr ''alice'') (JStr ''analyst''))
   \<and> register ''0.b2'' (JStr ''alice'') (JStr ''pw2'') (JStr ''coach'')
         (snd (register ''0.a1'' (JStr ''alice'') (JStr ''pw1'') (JStr ''analyst'') []))
       = (Response 400 (ErrorJson ''Username already exists''),
          [\<lparr>username = JStr ''alice'', password = JStr ''pw1'', role = JStr ''analyst'',
             sessionToken = JStr ''a1''\<rparr>])"
proof -
  have fresh: "\<not> list_ex (\<lambda>a. username a = JStr ''alice'') []" by simp
  note twice = register_twice [of "JStr ''alice''" "JStr ''pw1''" "JStr ''analyst''" "[]"
      "''0.a1''" "''0.b2''" "JStr ''pw2''" "JStr ''coach''", OF _ _ _ fresh, simplified]
  from twice have first: "fst (register ''0.a1'' (JStr ''alice'') (JStr ''pw1'') (JStr ''analyst'') [])
       = Response 200 (SessionJson (JStr ''a1'') (JStr ''alice'') (JStr ''analyst''))"
    by (simp add: generateToken_def)
  from twice have stored: "snd (register ''0.a1'' (JStr ''alice'') (JStr ''pw1'') (JStr ''analyst'') [])
       = [\<lparr>username = JStr ''alice'', password = JStr ''pw1'', role = JStr ''analyst'',
            sessionToken = JStr ''a1''\<rparr>]"
    by (simp add: generateToken_def)
  from twice have "register ''0.b2'' (JStr ''alice'') (JStr ''pw2'') (JStr ''coach'')
         (snd (register ''0.a1'' (JStr ''alice'') (JStr ''pw1'') (JStr ''analyst'') []))
       = (Response 400 (ErrorJson ''Username already exists''),
          snd (register ''0.a1'' (JStr ''alice'') (JStr ''pw1'') (JStr ''analyst'') []))"
    by (elim conjE)
  then have second: "register ''0.b2'' (JStr ''alice'') (JStr ''pw2'') (JStr ''coach'')
         (snd (register ''0.a1'' (JStr ''alice'') (JStr ''pw1'') (JStr ''analyst'') []))
       = (Response 400 (ErrorJson ''Username already exists''),
          [\<lparr>username = JStr ''alice'', password = JStr ''pw1'', role = JStr ''analyst'',
             sessionToken = JStr ''a1''\<rparr>])"
    by (simp only: stored)
  from first second show ?thesis by simp
qed

subsection \<open>Profile updates\<close>

text \<open>
  C5. For the account that the token finds, \<open>/update-profile\<close> with the body
  \<open>{role: "coach"}\<close> answers 200 and sets the role of that account to \<open>coach\<close>: the
  username, the password and the token of the account and every other account stay as
  they are. With an empty body it answers 200 and the store is unchanged.
\<close>

theorem update_role_only:
  assumes "findIndex (\<lambda>u. sessionToken u = token) users = Some i"
  shows "update_profile token JUndefined (JStr ''coach'') users
           = (Response 200 (UpdateJson True (username (users ! i)) (JStr ''coach'')),
              users[i := (users ! i)\<lparr>role := JStr ''coach''\<rparr>])
     \<and> update_profile token JUndefined JUndefined users
           = (Response 200 (UpdateJson True (username (users ! i)) (role (users ! i))), users)"
  using assms by (simp add: update_profile_def Let_def)

theorem update_role_only_witness:
  "findIndex (\<lambda>u. sessionToken u = JStr ''b2'')
     [\<lparr>username = JStr ''alice'', password = JStr ''pw1'', role = JStr ''analyst'',
        sessionToken = JStr ''a1''\<rparr>,
      \<lparr>username = JStr ''bob'', password = JStr ''pw2'', role = JStr ''analyst'',
        sessionToken = JStr ''b2''\<rparr>] = Some 1
   \<and> update_profile (JStr ''b2'') JUndefined (JStr ''coach'')
     [\<lparr>username = JStr ''alice'', password = JStr ''pw1'', role = JStr ''analyst'',
        sessionToken = JStr ''a1''\<rparr>,
      \<lparr>username = JStr ''bob'', password = JStr ''pw2'', role = JStr ''analyst'',
        sessionToken = JStr ''b2''\<rparr>]
     = (Response 200 (UpdateJson True (JStr ''bob'') (JStr ''coach'')),
        [\<lparr>username = JStr ''alice'', password = JStr ''pw1'', role = JStr ''analyst'',
           sessionToken = JStr ''a1''\<rparr>,
         \<lparr>username = JStr ''bob'', password = JStr ''pw2'', role = JStr ''coach'',
           sessionToken = JStr ''b2''\<rparr>])"
proof -
  have found: "findIndex (\<lambda>u. sessionToken u = JStr ''b2'')
     [\<lparr>username = JStr ''alice'', password = JStr ''pw1'', role = JStr ''analyst'',
        sessionToken = JStr ''a1''\<rparr>,
      \<lparr>username = JStr ''bob'', password = JStr ''pw2'', role = JStr ''analyst'',
        sessionToken = JStr ''b2''\<rparr>] = Some 1"
    by simp
  from found update_role_only [OF found] show ?thesis by simp
qed

text \<open>
  C9. For the account that the token finds, \<open>/update-profile\<close> with the username given
  as the empty string leaves the username as it was, whatever the role supplied, and
  answers 200 with that username; with the role given as the empty string it leaves the
  role as it was, whatever the username supplied, and answers 200 with that role. The
  empty string does what an absent field does: only a truthy value overwrites, and
  the handler writes nothing else. With both empty the store is unchanged.
\<close>

theorem update_empty_string:
  assumes "findIndex (\<lambda>u. sessionToken u = token) users = Some i"
  shows "update_profile token (JStr '''') rl users = update_profile token JUndefined rl users
     \<and> update_profile token uname (JStr '''') users = update_profile token uname JUndefined users
     \<and> update_profile token (JStr '''') (JStr '''') users
           = (Response 200 (UpdateJson True (username (users ! i)) (role (users ! i))), users)
     \<and> update_profile token (JStr '''') rl users
           = (Response 200 (UpdateJson True (username (users ! i))
                (if truthy rl then rl else role (users ! i))),
              users[i := (users ! i)\<lparr>role := if truthy rl then rl else role (users ! i)\<rparr>])
     \<and> update_profile token uname (JStr '''') users
           = (Response 200 (UpdateJson True
                (if truthy uname then uname else username (users ! i)) (role (users ! i))),
              users[i := (users ! i)
                \<lparr>username := if truthy uname then uname else username (users ! i)\<rparr>])
     \<and> username (snd (update_profile token (JStr '''') rl users) ! i) = username (users ! i)
     \<and> role (snd (update_profile token uname (JStr '''') users) ! i) = role (users ! i)
     \<and> update_profile token uname rl users
           = (Response 200 (UpdateJson True
                (if truthy uname then uname else username (users ! i))
                (if truthy rl then rl else role (users ! i))),
              users[i := (users ! i)
                \<lparr>username := if truthy uname then uname else username (users ! i),
                 role := if truthy rl then rl else role (users ! i)\<rparr>])"
proof -
  from findIndex_Some [OF assms] have "i < length users" by simp
  with assms show ?thesis by (simp add: update_profile_def Let_def)
qed

theorem update_empty_string_witness:
  "findIndex (\<lambda>u. sessionToken u = JStr ''a1'')
     [\<lparr>username = JStr ''alice'', password = JStr ''pw1'', role = JStr ''analyst'',
        sessionToken = JStr ''a1''\<rparr>] = Some 0
   \<and> update_profile (JStr ''a1'') (JStr '''') (JStr '''')
     [\<lparr>username = JStr ''alice'', password = JStr ''pw1'', role = JStr ''analyst'',
        sessionToken = JStr ''a1''\<rparr>]
     = (Response 200 (UpdateJson True (JStr ''alice'') (JStr ''analyst'')),
        [\<lparr>username = JStr ''alice'', password = JStr ''pw1'', role = JStr ''analyst'',
           sessionToken = JStr ''a1''\<rparr>])
   \<and> update_profile (JStr ''a1'') (JStr '''') (JStr ''coach'')
     [\<lparr>username = JStr ''alice'', password = JStr ''pw1'', role = JStr ''analyst'',
        sessionToken = JStr ''a1''\<rparr>]
     = (Response 200 (UpdateJson True (JStr ''alice'') (JStr ''coach'')),
        [\<lparr>username = JStr ''alice'', password = JStr ''pw1'', role = JStr ''coach'',
           sessionToken = JStr ''a1''\<rparr>])
   \<and> update_profile (JStr ''a1'') (JStr ''alicia'') (JStr '''')
     [\<lparr>username = JStr ''alice'', password = JStr ''pw1'', role = JStr ''analyst'',
        sessionToken = JStr ''a1''\<rparr>]
     = (Response 200 (UpdateJson True (JStr ''alicia'') (JStr ''analyst'')),
        [\<lparr>username = JStr ''alicia'', password = JStr ''pw1'', role = JStr ''analyst'',
           sessionToken = JStr ''a1''\<rparr>])"
proof -
  have found: "findIndex (\<lambda>u. sessionToken u = JStr ''a1'')
     [\<lparr>username = JStr ''alice'', password = JStr ''pw1'', role = JStr ''analyst'',
        sessionToken = JStr ''a1''\<rparr>] = Some 0"
    by simp
  note both = update_empty_string [OF found, THEN conjunct2, THEN conjunct2, THEN conjunct1,
      simplified]
  note name = update_empty_string [OF found, of "JStr ''coach''", THEN conjunct2,
      THEN conjunct2, THEN conjunct2, THEN conjunct1, simplified]
  note job = update_empty_string [OF found, of _ "JStr ''alicia''", THEN conjunct2,
      THEN conjunct2, THEN conjunct2, THEN conjunct2, THEN conjunct1, simplified]
  from found both name job show ?thesis by (intro conjI)
qed

subsection \<open>Session tokens\<close>

text \<open>
  Every handler keeps a property of the tokens of the store that the generated tokens
  have: \<open>/register\<close> and \<open>/login\<close> store the string that \<open>generateToken\<close> returns,
  and \<open>/update-profile\<close> assigns no token.
\<close>

lemma handle_keeps_tokens:
  assumes "\<forall>a \<in> set users. Q (sessionToken a)"
    and "\<forall>rnd. random_of r = Some rnd \<longrightarrow> Q (JStr (generateToken rnd))"
  shows "\<forall>a \<in> set (snd (handle r users)). Q (sessionToken a)"
proof (cases r)
  case (Register rnd uname pw rl)
  with assms show ?thesis by (simp add: register_def Let_def)
next
  case (Login rnd uname pw)
  show ?thesis
  proof (cases "findIndex (\<lambda>u. username u = uname \<and> password u = pw) users")
    case None
    with Login assms show ?thesis by (simp add: login_def)
  next
    case (Some i)
    have "set (users[i := (users ! i)\<lparr>sessionToken := JStr (generateToken rnd)\<rparr>])
            \<subseteq> insert ((users ! i)\<lparr>sessionToken := JStr (generateToken rnd)\<rparr>) (set users)"
      by (rule set_update_subset_insert)
    with Login Some assms show ?thesis by (auto simp: login_def Let_def)
  qed
next
  case (GetProfile token)
  with assms show ?thesis by (simp add: profile_def split: option.splits)
next
  case (UpdateProfile token uname rl)
  show ?thesis
  proof (cases "findIndex (\<lambda>u. sessionToken u = token) users")
    case None
    with UpdateProfile assms show ?thesis by (simp add: update_profile_def)
  next
    case (Some i)
    from findIndex_Some [OF Some] have "users ! i \<in> set users" by simp
    with assms have old: "Q (sessionToken (users ! i))" by blast
    define user2 where "user2 =
      (if truthy rl
       then (if truthy uname then (users ! i)\<lparr>username := uname\<rparr> else users ! i)\<lparr>role := rl\<rparr>
       else (if truthy uname then (users ! i)\<lparr>username := uname\<rparr> else users ! i))"
    have new: "Q (sessionToken user2)" using old by (simp add: user2_def)
    have "set (users[i := user2]) \<subseteq> insert user2 (set users)"
      by (rule set_update_subset_insert)
    with new assms have "\<forall>a \<in> set (users[i := user2]). Q (sessionToken a)" by auto
    moreover have "snd (handle r users) = users[i := user2]"
      using UpdateProfile Some by (simp add: update_profile_def Let_def user2_def)
    ultimately show ?thesis by simp
  qed
qed

lemma serve_keeps_tokens:
  "\<forall>a \<in> set users. Q (sessionToken a) \<Longrightarrow>
   \<forall>r \<in> set rs. \<forall>rnd. random_of r = Some rnd \<longrightarrow> Q (JStr (generateToken rnd)) \<Longrightarrow>
   \<forall>a \<in> set (serve rs users). Q (sessionToken a)"
proof (induction rs arbitrary: users)
  case Nil
  then show ?case by simp
next
  case (Cons r rs)
  from Cons.prems have "\<forall>a \<in> set (snd (handle r users)). Q (sessionToken a)"
    by (intro handle_keeps_tokens) simp_all
  with Cons.prems show ?case by (simp add: Cons.IH)
qed

lemma no_header_no_match:
  "\<forall>a \<in> set users. is_string (sessionToken a) \<Longrightarrow>
   findIndex (\<lambda>u. sessionToken u = JUndefined) users = None"
  by (auto simp: findIndex_None)

text \<open>
  C10, as the claim states it: every account has a non-empty \<open>sessionToken\<close> from the
  moment it is created. The token is the base 36 rendering of the random number without
  its first two characters, and the handlers test it for nothing: when the random number
  is 0, rendered \<open>0\<close>, the account is created with the empty string for its token, and a
  request that presents the empty string resolves to it.
\<close>

theorem empty_token_counterexample:
  "serve [Register ''0'' (JStr ''alice'') (JStr ''pw1'') (JStr ''analyst'')] []
     = [\<lparr>username = JStr ''alice'', password = JStr ''pw1'', role = JStr ''analyst'',
          sessionToken = JStr []\<rparr>]
   \<and> fst (profile (JStr [])
        (serve [Register ''0'' (JStr ''alice'') (JStr ''pw1'') (JStr ''analyst'')] []))
     = Response 200 (ProfileJson (JStr ''alice'') (JStr ''analyst''))"
  by (simp add: register_def profile_def generateToken_def Let_def)

text \<open>
  C10, amended: after every sequence of requests from the empty store, the
  \<open>sessionToken\<close> of every account is a string, never \<open>undefined\<close> or \<open>null\<close>, since
  \<open>/register\<close> assigns one, \<open>/login\<close> overwrites it and nothing clears it; it is not the
  empty string if the rendering of every random number drawn had more than two
  characters. So a request to \<open>/profile\<close> or \<open>/update-profile\<close> without the
  \<open>Authorization\<close> header, whose token is \<open>undefined\<close>, finds no account and is answered
  with status 401.
\<close>

theorem session_token_always_set:
  "(\<forall>a \<in> set (serve rs []). is_string (sessionToken a))
   \<and> ((\<forall>r \<in> set rs. \<forall>rnd. random_of r = Some rnd \<longrightarrow> 2 < length rnd) \<longrightarrow>
        (\<forall>a \<in> set (serve rs []). sessionToken a \<noteq> JStr []))
   \<and> profile JUndefined (serve rs [])
       = (Response 401 (ErrorJson ''You are not logged in''), serve rs [])
   \<and> update_profile JUndefined uname rl (serve rs [])
       = (Response 401 (ErrorJson ''You are not logged in''), serve rs [])"
proof -
  have inv: "\<forall>a \<in> set (serve rs []). is_string (sessionToken a)"
    by (rule serve_keeps_tokens) simp_all
  have filled: "(\<forall>r \<in> set rs. \<forall>rnd. random_of r = Some rnd \<longrightarrow> 2 < length rnd) \<longrightarrow>
        (\<forall>a \<in> set (serve rs []). sessionToken a \<noteq> JStr [])"
  proof
    assume long: "\<forall>r \<in> set rs. \<forall>rnd. random_of r = Some rnd \<longrightarrow> 2 < length rnd"
    show "\<forall>a \<in> set (serve rs []). sessionToken a \<noteq> JStr []"
      by (rule serve_keeps_tokens [where Q = "\<lambda>v. v \<noteq> JStr []"])
        (use long in \<open>auto simp: generateToken_def\<close>)
  qed
  from no_header_no_match [OF inv] inv filled show ?thesis
    by (simp add: profile_def update_profile_def)
qed

theorem session_token_always_set_witness:
  "2 < length ''0.a1'' \<and> 2 < length ''0.zz''
   \<and> \<lparr>username = JStr ''alice'', password = JStr ''pw1'', role = JStr ''analyst'',
     sessionToken = JStr ''zz''\<rparr>
     \<in> set (serve [Register ''0.a1'' (JStr ''alice'') (JStr ''pw1'') (JStr ''analyst''),
                   Login ''0.zz'' (JStr ''alice'') (JStr ''pw1'')] [])
   \<and> is_string (sessionToken \<lparr>username = JStr ''alice'', password = JStr ''pw1'',
        role = JStr ''analyst'', sessionToken = JStr ''zz''\<rparr>)
   \<and> fst (profile JUndefined
          (serve [Register ''0.a1'' (JStr ''alice'') (JStr ''pw1'') (JStr ''analyst''),
                  Login ''0.zz'' (JStr ''alice'') (JStr ''pw1'')] []))
       = Response 401 (ErrorJson ''You are not logged in'')"
proof -
  have stored: "serve [Register ''0.a1'' (JStr ''alice'') (JStr ''pw1'') (JStr ''analyst''),
                   Login ''0.zz'' (JStr ''alice'') (JStr ''pw1'')] []
      = [\<lparr>username = JStr ''alice'', password = JStr ''pw1'', role = JStr ''analyst'',
           sessionToken = JStr ''zz''\<rparr>]"
    by (simp add: register_def login_def generateToken_def Let_def)
  note inst = session_token_always_set
    [of "[Register ''0.a1'' (JStr ''alice'') (JStr ''pw1'') (JStr ''analyst''),
          Login ''0.zz'' (JStr ''alice'') (JStr ''pw1'')]"]
  from inst have "fst (profile JUndefined
          (serve [Register ''0.a1'' (JStr ''alice'') (JStr ''pw1'') (JStr ''analyst''),
                  Login ''0.zz'' (JStr ''alice'') (JStr ''pw1'')] []))
       = Response 401 (ErrorJson ''You are not logged in'')"
    by simp
  moreover from inst have "is_string (sessionToken \<lparr>username = JStr ''alice'',
        password = JStr ''pw1'', role = JStr ''analyst'', sessionToken = JStr ''zz''\<rparr>)"
    unfolding stored by simp
  ultimately show ?thesis unfolding stored by simp
qed

text \<open>
  A request that hands account \<open>i\<close> no new token leaves the token of \<open>i\<close> as it is:
  \<open>/register\<close> appends, \<open>/login\<close> assigns the token of the account it finds, and
  \<open>/update-profile\<close> assigns a username and a role only.
\<close>

lemma handle_keeps_token:
  assumes i: "i < length users" and t: "sessionToken (users ! i) = JStr t"
    and other: "\<not> (case issued r users of None \<Rightarrow> False | Some (j, t') \<Rightarrow> j = i)"
  shows "i < length (snd (handle r users)) \<and> sessionToken (snd (handle r users) ! i) = JStr t"
proof (cases r)
  case (Register rnd uname pw rl)
  with i t show ?thesis by (simp add: register_def Let_def nth_append)
next
  case (Login rnd uname pw)
  show ?thesis
  proof (cases "findIndex (\<lambda>u. username u = uname \<and> password u = pw) users")
    case None
    with Login i t show ?thesis by (simp add: login_def)
  next
    case (Some j)
    with Login other have "j \<noteq> i" by simp
    with Login Some i t show ?thesis by (simp add: login_def Let_def)
  qed
next
  case (GetProfile token)
  with i t show ?thesis by (simp add: profile_def split: option.splits)
next
  case (UpdateProfile token uname rl)
  show ?thesis
  proof (cases "findIndex (\<lambda>u. sessionToken u = token) users")
    case None
    with UpdateProfile i t show ?thesis by (simp add: update_profile_def)
  next
    case (Some j)
    show ?thesis
    proof (cases "j = i")
      case True
      with UpdateProfile Some i t show ?thesis by (simp add: update_profile_def Let_def)
    next
      case False
      with UpdateProfile Some i t show ?thesis by (simp add: update_profile_def Let_def)
    qed
  qed
qed

lemma serve_keeps_token:
  "i < length users \<Longrightarrow> sessionToken (users ! i) = JStr t \<Longrightarrow> \<not> superseded i rs users \<Longrightarrow>
   i < length (serve rs users) \<and> sessionToken (serve rs users ! i) = JStr t"
proof (induction rs arbitrary: users)
  case Nil
  then show ?case by simp
next
  case (Cons r rs)
  from Cons.prems(3)
  have other: "\<not> (case issued r users of None \<Rightarrow> False | Some (j, t') \<Rightarrow> j = i)"
    and rest: "\<not> superseded i rs (snd (handle r users))"
    by simp_all
  from handle_keeps_token [OF Cons.prems(1,2) other] rest show ?case
    by (simp add: Cons.IH)
qed

lemma issued_stored:
  assumes "issued r users = Some (i, t)"
  shows "i < length (snd (handle r users)) \<and> sessionToken (snd (handle r users) ! i) = JStr t
         \<and> (\<exists>u rl. fst (handle r users) = Response 200 (SessionJson (JStr t) u rl))"
proof (cases r)
  case (Register rnd uname pw rl)
  with assms show ?thesis
    by (auto simp: register_def Let_def split: if_splits)
next
  case (Login rnd uname pw)
  with assms have f: "findIndex (\<lambda>u. username u = uname \<and> password u = pw) users = Some i"
    and tok: "t = generateToken rnd"
    by auto
  from findIndex_Some [OF f] have "i < length users" by simp
  with Login f tok show ?thesis by (simp add: login_def Let_def)
next
  case (GetProfile token)
  with assms show ?thesis by simp
next
  case (UpdateProfile token uname rl)
  with assms show ?thesis by simp
qed

lemma token_found:
  assumes "i < length users" and "sessionToken (users ! i) = JStr t"
  shows "\<exists>k \<le> i. findIndex (\<lambda>u. sessionToken u = JStr t) users = Some k"
proof (cases "findIndex (\<lambda>u. sessionToken u = JStr t) users")
  case None
  with assms show ?thesis by (auto simp: findIndex_None)
next
  case (Some k)
  from findIndex_Some [OF Some] assms have "k \<le> i" by (meson not_le_imp_less)
  with Some show ?thesis by simp
qed

lemma token_found_first:
  assumes "i < length users" and "sessionToken (users ! i) = JStr t"
    and "\<forall>j < i. sessionToken (users ! j) \<noteq> JStr t"
  shows "findIndex (\<lambda>u. sessionToken u = JStr t) users = Some i"
  using assms by (intro findIndex_first) auto

lemma unknown_token:
  assumes "\<forall>a \<in> set users. sessionToken a \<noteq> token"
  shows "profile token users = (Response 401 (ErrorJson ''You are not logged in''), users)
     \<and> update_profile token uname rl users
         = (Response 401 (ErrorJson ''You are not logged in''), users)"
proof -
  from assms have "findIndex (\<lambda>u. sessionToken u = token) users = None"
    by (simp add: findIndex_None)
  then show ?thesis by (simp add: profile_def update_profile_def)
qed

text \<open>
  C2, as the claim states it: a call that presents a token handed to account \<open>a\<close>
  resolves to \<open>a\<close> as long as no later login for \<open>a\<close> has occurred. It does not hold
  when the generator returns a token that an earlier account holds: alice and bob are
  registered with the same random number, and the token that \<open>/register\<close> hands to
  bob, the second account, resolves to alice.
\<close>

theorem token_collision_counterexample:
  "issued (Register ''0.abc'' (JStr ''bob'') (JStr ''pw2'') (JStr ''coach''))
     (serve [Register ''0.abc'' (JStr ''alice'') (JStr ''pw1'') (JStr ''analyst'')] [])
     = Some (1, ''abc'')
   \<and> \<not> superseded 1 []
       (serve [Register ''0.abc'' (JStr ''alice'') (JStr ''pw1'') (JStr ''analyst''),
               Register ''0.abc'' (JStr ''bob'') (JStr ''pw2'') (JStr ''coach'')] [])
   \<and> username
       (serve [Register ''0.abc'' (JStr ''alice'') (JStr ''pw1'') (JStr ''analyst''),
               Register ''0.abc'' (JStr ''bob'') (JStr ''pw2'') (JStr ''coach'')] [] ! 1)
     = JStr ''bob''
   \<and> fst (profile (JStr ''abc'')
       (serve [Register ''0.abc'' (JStr ''alice'') (JStr ''pw1'') (JStr ''analyst''),
               Register ''0.abc'' (JStr ''bob'') (JStr ''pw2'') (JStr ''coach'')] []))
     = Response 200 (ProfileJson (JStr ''alice'') (JStr ''analyst''))"
  by (simp add: register_def profile_def generateToken_def Let_def)

text \<open>
  C2, amended: when \<open>/register\<close> or \<open>/login\<close> answers with the token \<open>t\<close> for account
  \<open>i\<close>, then after any further requests of which none hands \<open>i\<close> a new token, a call to
  \<open>/profile\<close> or \<open>/update-profile\<close> that presents \<open>t\<close> is answered with status 200; it
  resolves to account \<open>i\<close> if no account registered before \<open>i\<close> holds the same token
  (the generator does not exclude that). A call that presents a token that no account
  of the store holds is answered with status 401 and changes nothing.
\<close>

theorem token_authenticates:
  assumes "issued r users = Some (i, t)"
    and "\<not> superseded i rs (snd (handle r users))"
    and "users' = serve rs (snd (handle r users))"
  shows "(\<exists>u rl. fst (handle r users) = Response 200 (SessionJson (JStr t) u rl))
     \<and> status (fst (profile (JStr t) users')) = 200
     \<and> status (fst (update_profile (JStr t) uname rl users')) = 200
     \<and> ((\<forall>j < i. sessionToken (users' ! j) \<noteq> JStr t) \<longrightarrow>
          profile (JStr t) users'
            = (Response 200 (ProfileJson (username (users' ! i)) (role (users' ! i))), users')
          \<and> update_profile (JStr t) uname rl users'
            = (Response 200 (UpdateJson True
                 (if truthy uname then uname else username (users' ! i))
                 (if truthy rl then rl else role (users' ! i))),
               users'[i := (users' ! i)
                 \<lparr>username := if truthy uname then uname else username (users' ! i),
                  role := if truthy rl then rl else role (users' ! i)\<rparr>]))
     \<and> ((\<forall>a \<in> set store. sessionToken a \<noteq> token) \<longrightarrow>
          profile token store = (Response 401 (ErrorJson ''You are not logged in''), store)
          \<and> update_profile token uname rl store
              = (Response 401 (ErrorJson ''You are not logged in''), store))"
proof -
  from issued_stored [OF assms(1)]
  have st: "i < length (snd (handle r users))"
      "sessionToken (snd (handle r users) ! i) = JStr t"
    and resp: "\<exists>u rl. fst (handle r users) = Response 200 (SessionJson (JStr t) u rl)"
    by simp_all
  from serve_keeps_token [OF st assms(2)] assms(3)
  have kept: "i < length users'" "sessionToken (users' ! i) = JStr t"
    by simp_all
  from token_found [OF kept] obtain k
    where k: "findIndex (\<lambda>u. sessionToken u = JStr t) users' = Some k"
    by blast
  have ok1: "status (fst (profile (JStr t) users')) = 200"
    using k by (simp add: profile_def)
  have ok2: "status (fst (update_profile (JStr t) uname rl users')) = 200"
    using k by (simp add: update_profile_def Let_def)
  have first: "(\<forall>j < i. sessionToken (users' ! j) \<noteq> JStr t) \<longrightarrow>
          profile (JStr t) users'
            = (Response 200 (ProfileJson (username (users' ! i)) (role (users' ! i))), users')
          \<and> update_profile (JStr t) uname rl users'
            = (Response 200 (UpdateJson True
                 (if truthy uname then uname else username (users' ! i))
                 (if truthy rl then rl else role (users' ! i))),
               users'[i := (users' ! i)
                 \<lparr>username := if truthy uname then uname else username (users' ! i),
                  role := if truthy rl then rl else role (users' ! i)\<rparr>])"
    using token_found_first [OF kept] by (simp add: profile_def update_profile_def Let_def)
  have unknown: "(\<forall>a \<in> set store. sessionToken a \<noteq> token) \<longrightarrow>
          profile token store = (Response 401 (ErrorJson ''You are not logged in''), store)
          \<and> update_profile token uname rl store
              = (Response 401 (ErrorJson ''You are not logged in''), store)"
    using unknown_token by blast
  from resp ok1 ok2 first unknown show ?thesis by blast
qed

theorem token_authenticates_witness:
  "issued (Register ''0.a1'' (JStr ''alice'') (JStr ''pw1'') (JStr ''analyst'')) []
     = Some (0, ''a1'')
   \<and> \<not> superseded 0
        [Register ''0.b2'' (JStr ''bob'') (JStr ''pw2'') (JStr ''analyst''),
         Login ''0.c3'' (JStr ''bob'') (JStr ''pw2''),
         UpdateProfile (JStr ''a1'') JUndefined (JStr ''coach'')]
        (snd (handle (Register ''0.a1'' (JStr ''alice'') (JStr ''pw1'') (JStr ''analyst'')) []))
   \<and> fst (profile (JStr ''a1'')
        (serve [Register ''0.b2'' (JStr ''bob'') (JStr ''pw2'') (JStr ''analyst''),
                Login ''0.c3'' (JStr ''bob'') (JStr ''pw2''),
                UpdateProfile (JStr ''a1'') JUndefined (JStr ''coach'')]
          (snd (handle (Register ''0.a1'' (JStr ''alice'') (JStr ''pw1'') (JStr ''analyst'')) []))))
     = Response 200 (ProfileJson (JStr ''alice'') (JStr ''coach''))
   \<and> fst (profile (JStr ''b2'')
        (serve [Register ''0.b2'' (JStr ''bob'') (JStr ''pw2'') (JStr ''analyst''),
                Login ''0.c3'' (JStr ''bob'') (JStr ''pw2''),
                UpdateProfile (JStr ''a1'') JUndefined (JStr ''coach'')]
          (snd (handle (Register ''0.a1'' (JStr ''alice'') (JStr ''pw1'') (JStr ''analyst'')) []))))
     = Response 401 (ErrorJson ''You are not logged in'')"
proof -
  have handed: "issued (Register ''0.a1'' (JStr ''alice'') (JStr ''pw1'') (JStr ''analyst'')) []
     = Some (0, ''a1'')"
    by (simp add: register_def generateToken_def Let_def)
  have later: "\<not> superseded 0
        [Register ''0.b2'' (JStr ''bob'') (JStr ''pw2'') (JStr ''analyst''),
         Login ''0.c3'' (JStr ''bob'') (JStr ''pw2''),
         UpdateProfile (JStr ''a1'') JUndefined (JStr ''coach'')]
        (snd (handle (Register ''0.a1'' (JStr ''alice'') (JStr ''pw1'') (JStr ''analyst'')) []))"
    by (simp add: register_def login_def update_profile_def generateToken_def Let_def)
  have stored: "serve [Register ''0.b2'' (JStr ''bob'') (JStr ''pw2'') (JStr ''analyst''),
                Login ''0.c3'' (JStr ''bob'') (JStr ''pw2''),
                UpdateProfile (JStr ''a1'') JUndefined (JStr ''coach'')]
          (snd (handle (Register ''0.a1'' (JStr ''alice'') (JStr ''pw1'') (JStr ''analyst'')) []))
      = [\<lparr>username = JStr ''alice'', password = JStr ''pw1'', role = JStr ''coach'',
           sessionToken = JStr ''a1''\<rparr>,
         \<lparr>username = JStr ''bob'', password = JStr ''pw2'', role = JStr ''analyst'',
           sessionToken = JStr ''c3''\<rparr>]"
    by (simp add: register_def login_def update_profile_def generateToken_def Let_def)
  note inst = token_authenticates [OF handed later stored [symmetric], of JUndefined JUndefined
      "[\<lparr>username = JStr ''alice'', password = JStr ''pw1'', role = JStr ''coach'',
           sessionToken = JStr ''a1''\<rparr>,
         \<lparr>username = JStr ''bob'', password = JStr ''pw2'', role = JStr ''analyst'',
           sessionToken = JStr ''c3''\<rparr>]" "JStr ''b2''"]
  from inst have resolves: "fst (profile (JStr ''a1'')
      [\<lparr>username = JStr ''alice'', password = JStr ''pw1'', role = JStr ''coach'',
           sessionToken = JStr ''a1''\<rparr>,
         \<lparr>username = JStr ''bob'', password = JStr ''pw2'', role = JStr ''analyst'',
           sessionToken = JStr ''c3''\<rparr>])
     = Response 200 (ProfileJson (JStr ''alice'') (JStr ''coach''))"
    by simp
  from inst have refused: "fst (profile (JStr ''b2'')
      [\<lparr>username = JStr ''alice'', password = JStr ''pw1'', role = JStr ''coach'',
           sessionToken = JStr ''a1''\<rparr>,
         \<lparr>username = JStr ''bob'', password = JStr ''pw2'', role = JStr ''analyst'',
           sessionToken = JStr ''c3''\<rparr>])
     = Response 401 (ErrorJson ''You are not logged in'')"
    by simp
  from handed later resolves refused show ?thesis
    unfolding stored by (intro conjI)
qed

subsection \<open>Login\<close>




section \<open>Properties of the uploads\<close>

text \<open>
  C6. A request to \<open>/upload\<close> whose \<open>fileName\<close> is missing (absent, or empty: the
  handler tests \<open>!fileName\<close>) is answered with status 400. Otherwise the handler asks
  the signer for a \<open>putObject\<close> URL with the descriptor whose key is the \<open>fileName\<close>,
  whose expiry is 60 seconds and whose content type is \<open>text/csv\<close>, whatever the signer
  is; it answers with \<open>{uploadURL}\<close> when the signer gives a URL, and with status 500
  and the signer's message when the signer gives an error.
\<close>

theorem upload_presigned:
  "upload sign bucket JUndefined = Response 400 (ErrorJson ''you are missing filename'')
   \<and> (\<not> truthy fileName \<longrightarrow>
        upload sign bucket fileName = Response 400 (ErrorJson ''you are missing filename''))
   \<and> (truthy fileName \<longrightarrow>
        upload sign bucket fileName
          = (case sign ''putObject'' \<lparr>Bucket = bucket, Key = fileName, Expires = 60,
                                      ContentType = ''text/csv''\<rparr> of
               Inl message \<Rightarrow> Response 500 (ErrorJson message)
             | Inr url \<Rightarrow> Response 200 (UploadJson url)))"
  by (simp add: upload_def)

theorem upload_presigned_witness:
  "truthy (JStr ''a.csv'')
   \<and> upload (\<lambda>operation p. if operation = ''putObject'' \<and> Expires p = 60 \<and> ContentType p = ''text/csv''
                   then Inr (''https://bucket.example/'' @ js_string (Key p)) else Inl ''refused'')
        (JStr ''bucket'') (JStr ''a.csv'')
       = Response 200 (UploadJson ''https://bucket.example/a.csv'')
   \<and> upload (\<lambda>operation p. Inl ''Missing credentials'') (JStr ''bucket'') (JStr ''a.csv'')
       = Response 500 (ErrorJson ''Missing credentials'')"
  using upload_presigned [of "\<lambda>operation p. if operation = ''putObject'' \<and> Expires p = 60 \<and> ContentType p = ''text/csv''
                   then Inr (''https://bucket.example/'' @ js_string (Key p)) else Inl ''refused''"
           "JStr ''bucket''" "JStr ''a.csv''"]
      upload_presigned [of "\<lambda>operation p. Inl ''Missing credentials''" "JStr ''bucket''" "JStr ''a.csv''"]
  by simp

text \<open>
  C7. The inline-content upload with an absent or an empty \<open>fileContent\<close> fails
  validation; a key that it returns is the \<open>filename\<close> submitted, and the content of
  that request is not empty; and it returns the key whenever the three fields are not
  empty and the storage accepts the write.
\<close>

theorem inline_upload_key:
  "inline_upload put sid fname None = Inl ValidationError
   \<and> inline_upload put sid fname (Some []) = Inl ValidationError
   \<and> (inline_upload put sid fname content = Inr k \<longrightarrow>
        k = fname \<and> (\<exists>txt. content = Some txt \<and> txt \<noteq> []))
   \<and> (sid \<noteq> [] \<and> fname \<noteq> [] \<and> txt \<noteq> [] \<and> put fname txt = None \<longrightarrow>
        inline_upload put sid fname (Some txt) = Inr fname)"
  by (auto simp: inline_upload_def split: option.splits if_splits)

theorem inline_upload_key_witness:
  "inline_upload (\<lambda>k c. None) ''p7'' ''a.csv'' (Some ''x,y'') = Inr ''a.csv''
   \<and> inline_upload (\<lambda>k c. None) ''p7'' ''a.csv'' (Some '''') = Inl ValidationError"
  using inline_upload_key [of "\<lambda>k c. None" "''p7''" "''a.csv''" "Some ''x,y''" "''a.csv''" "''x,y''"]
  by simp

section \<open>Properties of the upload form\<close>









end
